theory Spec2Isabelle
  imports Main "HOL-Library.AList"
begin

section \<open>JavaScript values and JSON text\<close>

text \<open>
  The handler of \<^verbatim>\<open>AwsLambdaHandlerBuilder.ts\<close> passes untyped JavaScript values between
  its stages and serialises them with \<^verbatim>\<open>JSON.stringify\<close>. Values are modelled by the JSON
  fragment of JavaScript plus \<^verbatim>\<open>undefined\<close>; numbers are the integers that JavaScript
  writes in plain decimal (of magnitude below \<open>10\<^sup>2\<^sup>1\<close>); an object is its property list in
  insertion order (property names are distinct). A \<open>string\<close> is the
  UTF-8 byte sequence of the JavaScript string, so that \<open>length\<close> is
  \<^verbatim>\<open>Buffer.byteLength\<close>.
\<close>

datatype jsval =
    JUndefined
  | JNull
  | JBool bool
  | JNum int
  | JStr string
  | JArr "jsval list"
  | JObj "(string \<times> jsval) list"

text \<open>Truthiness, as \<^verbatim>\<open>if (v)\<close> and \<^verbatim>\<open>!v\<close> read a value.\<close>

fun truthy :: "jsval \<Rightarrow> bool" where
  "truthy JUndefined = False"
| "truthy JNull = False"
| "truthy (JBool b) = b"
| "truthy (JNum i) = (i \<noteq> 0)"
| "truthy (JStr s) = (s \<noteq> [])"
| "truthy (JArr xs) = True"
| "truthy (JObj ps) = True"

text \<open>
  The value an object holds under a name: a property it does not have reads as
  \<^verbatim>\<open>undefined\<close>.
\<close>

definition own_prop :: "(string \<times> jsval) list \<Rightarrow> string \<Rightarrow> jsval" where
  "own_prop ps name = (case map_of ps name of None \<Rightarrow> JUndefined | Some v \<Rightarrow> v)"

text \<open>\<^verbatim>\<open>typeof v === 'object' && v !== null\<close>\<close>

fun is_object :: "jsval \<Rightarrow> bool" where
  "is_object (JObj ps) = True"
| "is_object (JArr xs) = True"
| "is_object v = False"

text \<open>\<^verbatim>\<open>v ?? null\<close>\<close>

definition or_null :: "jsval \<Rightarrow> jsval" where
  "or_null v = (if v = JUndefined \<or> v = JNull then JNull else v)"

text \<open>\<^verbatim>\<open>Array.prototype.join\<close> and \<^verbatim>\<open>String.prototype.split\<close> on a one-character separator.\<close>

fun js_join :: "string \<Rightarrow> string list \<Rightarrow> string" where
  "js_join sep [] = []"
| "js_join sep [x] = x"
| "js_join sep (x # y # ys) = x @ sep @ js_join sep (y # ys)"

fun js_split :: "char \<Rightarrow> string \<Rightarrow> string list" where
  "js_split sep [] = [[]]"
| "js_split sep (c # cs) =
     (if c = sep then [] # js_split sep cs
      else (case js_split sep cs of [] \<Rightarrow> [[c]] | w # ws \<Rightarrow> (c # w) # ws))"

text \<open>\<^verbatim>\<open>String.prototype.includes\<close>: the text occurs somewhere in the string.\<close>

fun js_includes :: "string \<Rightarrow> string \<Rightarrow> bool" where
  "js_includes [] sub = (sub = [])"
| "js_includes (c # cs) sub = (take (length sub) (c # cs) = sub \<or> js_includes cs sub)"

text \<open>\<^verbatim>\<open>JSON.stringify\<close> on the fragment.\<close>

fun decimal :: "nat \<Rightarrow> string" where
  "decimal n = (if n < 10 then [''0123456789'' ! n]
                else decimal (n div 10) @ [''0123456789'' ! (n mod 10)])"

declare decimal.simps [simp del]

definition number_text :: "int \<Rightarrow> string" where
  "number_text i = (if i < 0 then CHR ''-'' # decimal (nat (- i)) else decimal (nat i))"

definition hex2 :: "nat \<Rightarrow> string" where
  "hex2 n = [''0123456789abcdef'' ! (n div 16), ''0123456789abcdef'' ! (n mod 16)]"

definition escape_char :: "char \<Rightarrow> string" where
  "escape_char c =
     (if c = CHR 0x22 then [CHR 0x5C, CHR 0x22]
      else if c = CHR 0x5C then [CHR 0x5C, CHR 0x5C]
      else if c = CHR 0x08 then [CHR 0x5C, CHR ''b'']
      else if c = CHR 0x09 then [CHR 0x5C, CHR ''t'']
      else if c = CHR 0x0A then [CHR 0x5C, CHR ''n'']
      else if c = CHR 0x0C then [CHR 0x5C, CHR ''f'']
      else if c = CHR 0x0D then [CHR 0x5C, CHR ''r'']
      else if (of_char c :: nat) < 32
        then [CHR 0x5C, CHR ''u'', CHR ''0'', CHR ''0''] @ hex2 (of_char c)
      else [c])"

definition quote :: "string \<Rightarrow> string" where
  "quote s = CHR 0x22 # concat (map escape_char s) @ [CHR 0x22]"

text \<open>
  Inside an array \<^verbatim>\<open>undefined\<close> is written \<^verbatim>\<open>null\<close>; a property whose value is
  \<^verbatim>\<open>undefined\<close> is left out. At the top level \<^verbatim>\<open>JSON.stringify(undefined)\<close> is
  \<^verbatim>\<open>undefined\<close>, not a string.
\<close>

fun serialize :: "jsval \<Rightarrow> string"
  and serialize_elems :: "jsval list \<Rightarrow> string list"
  and serialize_props :: "(string \<times> jsval) list \<Rightarrow> string list" where
  "serialize JUndefined = ''null''"
| "serialize JNull = ''null''"
| "serialize (JBool b) = (if b then ''true'' else ''false'')"
| "serialize (JNum i) = number_text i"
| "serialize (JStr s) = quote s"
| "serialize (JArr xs) = ''['' @ js_join '','' (serialize_elems xs) @ '']''"
| "serialize (JObj ps) = ''{'' @ js_join '','' (serialize_props ps) @ ''}''"
| "serialize_elems [] = []"
| "serialize_elems (x # xs) = serialize x # serialize_elems xs"
| "serialize_props [] = []"
| "serialize_props ((k, v) # ps) =
     (if v = JUndefined then serialize_props ps
      else (quote k @ '':'' @ serialize v) # serialize_props ps)"

definition JSON_stringify :: "jsval \<Rightarrow> string option" where
  "JSON_stringify v = (if v = JUndefined then None else Some (serialize v))"

section \<open>Thrown values and error classes\<close>

text \<open>
  A thrown value carries the constructors it is an instance of (its own class first,
  then up the prototype chain), its \<^verbatim>\<open>message\<close> and its \<^verbatim>\<open>errors\<close> property
  (\<open>None\<close> for \<^verbatim>\<open>undefined\<close>). A thrown value that is no \<^verbatim>\<open>Error\<close> (a string, say) has
  no class.
\<close>

record thrown =
  classes :: "string list"
  message :: string
  errors :: "jsval list option"

definition instanceof :: "thrown \<Rightarrow> string \<Rightarrow> bool" where
  "instanceof error errorType = (errorType \<in> set (classes error))"

text \<open>
  Modelled from the spec: the error classes of the package \<^verbatim>\<open>@denis_bruns/core\<close>
  (\<open>SchemaValidationError\<close> carrying the list of findings, \<open>RequestTimeoutError\<close>,
  \<open>PayloadTooLargeError\<close>) are not part of this repository; each is taken to extend
  \<^verbatim>\<open>Error\<close> directly and to keep its constructor arguments unchanged. The messages of the
  two argument-free classes are parameters of the model.
\<close>

definition SchemaValidationError :: "string \<Rightarrow> jsval list \<Rightarrow> thrown" where
  "SchemaValidationError msg findings =
     \<lparr>classes = [''SchemaValidationError'', ''Error''], message = msg, errors = Some findings\<rparr>"

definition RequestTimeoutError :: "string \<Rightarrow> thrown" where
  "RequestTimeoutError msg =
     \<lparr>classes = [''RequestTimeoutError'', ''Error''], message = msg, errors = None\<rparr>"

definition PayloadTooLargeError :: "string \<Rightarrow> thrown" where
  "PayloadTooLargeError msg =
     \<lparr>classes = [''PayloadTooLargeError'', ''Error''], message = msg, errors = None\<rparr>"

text \<open>\<^verbatim>\<open>new Error(msg)\<close>, rxjs's \<^verbatim>\<open>EmptyError\<close>, and the \<^verbatim>\<open>TypeError\<close> of
  \<^verbatim>\<open>Buffer.byteLength(undefined)\<close>.\<close>

definition Error :: "string \<Rightarrow> thrown" where
  "Error msg = \<lparr>classes = [''Error''], message = msg, errors = None\<rparr>"

definition EmptyError :: thrown where
  "EmptyError =
     \<lparr>classes = [''EmptyError'', ''Error''], message = ''no elements in sequence'', errors = None\<rparr>"

definition byteLength_TypeError :: thrown where
  "byteLength_TypeError =
     \<lparr>classes = [''TypeError'', ''Error''],
      message = ''The \"string\" argument must be of type string or an instance of Buffer or ArrayBuffer. Received undefined'',
      errors = None\<rparr>"

text \<open>
  A property read \<^verbatim>\<open>v.name\<close> or \<^verbatim>\<open>v[name]\<close>. On \<^verbatim>\<open>null\<close> and \<^verbatim>\<open>undefined\<close> it throws a
  \<^verbatim>\<open>TypeError\<close>; on an object it gives the property's value; on every other value it
  gives \<^verbatim>\<open>undefined\<close> (the names read in this program are never properties of arrays,
  strings, numbers or booleans).
\<close>

definition read_TypeError :: "string \<Rightarrow> string \<Rightarrow> thrown" where
  "read_TypeError of_what name =
     \<lparr>classes = [''TypeError'', ''Error''],
      message = ''Cannot read properties of '' @ of_what @ '' (reading ''
                @ [CHR 0x27] @ name @ [CHR 0x27] @ '')'',
      errors = None\<rparr>"

fun get_prop :: "jsval \<Rightarrow> string \<Rightarrow> thrown + jsval" where
  "get_prop JUndefined name = Inl (read_TypeError ''undefined'' name)"
| "get_prop JNull name = Inl (read_TypeError ''null'' name)"
| "get_prop (JObj ps) name = Inr (own_prop ps name)"
| "get_prop v name = Inr JUndefined"

section \<open>Origin policy\<close>

text \<open>
  \<^verbatim>\<open>validateOrigin\<close>: \<open>None\<close> is \<^verbatim>\<open>undefined\<close>; \<^verbatim>\<open>!requestOrigin\<close> also holds of the
  empty string.
\<close>

definition validateOrigin :: "string option \<Rightarrow> string list option \<Rightarrow> string" where
  "validateOrigin requestOrigin whitelist =
     (case whitelist of
        None \<Rightarrow> ''*''
      | Some wl \<Rightarrow>
          (case requestOrigin of
             None \<Rightarrow> ''*''
           | Some origin \<Rightarrow>
               if origin = [] then ''*''
               else if origin \<in> set wl then origin else ''null''))"

section \<open>Validation findings\<close>

text \<open>
  The validator's \<^verbatim>\<open>ErrorObject\<close>. Of \<^verbatim>\<open>params\<close> the code reads \<^verbatim>\<open>missingProperty\<close>,
  \<^verbatim>\<open>additionalProperty\<close>, \<^verbatim>\<open>format\<close> (strings, \<open>None\<close> when absent) and \<^verbatim>\<open>errors\<close>, the
  errors an \<^verbatim>\<open>errorMessage\<close> rule wraps, of which it reads the \<^verbatim>\<open>keyword\<close> only.
\<close>

record error_params =
  missingProperty :: "string option"
  additionalProperty :: "string option"
  format :: "string option"
  wrapped_keywords :: "string list option"

record ErrorObject =
  instancePath :: string
  keyword :: string
  params :: error_params
  schema :: jsval
  ajv_message :: "string option"

text \<open>
  A string-valued property that is truthy: present and not empty. (In \<open>findings_of\<close>
  below, the read of \<^verbatim>\<open>error.schema[err.keyword]\<close> stands under the guard that the schema
  is an object, where a read never throws.)
\<close>

definition truthy_string :: "string option \<Rightarrow> string option" where
  "truthy_string s = (case s of None \<Rightarrow> None | Some t \<Rightarrow> if t = [] then None else Some t)"

definition finding :: "string \<Rightarrow> jsval \<Rightarrow> jsval" where
  "finding key msg = JObj [(''key'', JStr key), (''message'', msg)]"

definition finding_key :: "ErrorObject \<Rightarrow> string" where
  "finding_key error =
     (let pathSegments = filter (\<lambda>s. s \<noteq> []) (js_split CHR ''/'' (instancePath error)) in
      if length pathSegments > 0 then js_join ''.'' pathSegments
      else (case truthy_string (missingProperty (params error)) of
          Some missing \<Rightarrow>
            (let parentPath = js_join ''.'' pathSegments in
             if parentPath \<noteq> [] then parentPath @ ''.'' @ missing else missing)
        | None \<Rightarrow>
        (case truthy_string (additionalProperty (params error)) of
          Some additional \<Rightarrow>
            (let parentPath = js_join ''.'' pathSegments in
             if parentPath \<noteq> [] then parentPath @ ''.'' @ additional else additional)
        | None \<Rightarrow>
        (case truthy_string (format (params error)) of
          Some fmt \<Rightarrow> if length pathSegments > 0 then js_join ''.'' pathSegments else fmt
        | None \<Rightarrow> ''generic''))))"

definition findings_of :: "ErrorObject \<Rightarrow> jsval list" where
  "findings_of error =
     (let key = finding_key error in
      case (if keyword error = ''errorMessage'' then wrapped_keywords (params error) else None) of
        Some errs \<Rightarrow>
          concat (map (\<lambda>err_keyword.
            if is_object (schema error)
            then (case get_prop (schema error) err_keyword of
                    Inl e \<Rightarrow> []
                  | Inr msg \<Rightarrow> if truthy msg then [finding key msg] else [])
            else []) errs)
      | None \<Rightarrow>
          (case truthy_string (ajv_message error) of
             Some msg \<Rightarrow> [finding key (JStr msg)]
           | None \<Rightarrow> []))"

definition formatErrors :: "ErrorObject list option \<Rightarrow> jsval list" where
  "formatErrors errs =
     (case errs of
        None \<Rightarrow> []
      | Some es \<Rightarrow> if length es = 0 then [] else concat (map findings_of es))"

text \<open>
  \<^verbatim>\<open>validate\<close>. The compiled validator (\<^verbatim>\<open>ajv.compile(schema)\<close>, an external library) is
  a parameter: applied to the data it answers whether the data is valid, and its
  \<^verbatim>\<open>errors\<close> property afterwards.
\<close>

type_synonym validator = "jsval \<Rightarrow> bool \<times> ErrorObject list option"

definition validate :: "validator \<Rightarrow> jsval \<Rightarrow> thrown + jsval" where
  "validate compiled data =
     (case compiled data of
        (valid, validator_errors) \<Rightarrow>
          if \<not> valid
          then Inl (SchemaValidationError ''Validation failed'' (formatErrors validator_errors))
          else Inr data)"

section \<open>Error classifier\<close>

text \<open>
  \<^verbatim>\<open>errorToStatusCodeMapping\<close> is an object keyed by status codes, here its property list.
  The handler builds \<^verbatim>\<open>errorMapping\<close> with an object literal (a later property of the
  same key replaces the value and keeps the place) and walks \<^verbatim>\<open>Object.entries\<close> of it,
  which lists the integer keys (array indices, below \<open>2\<^sup>3\<^sup>2 - 1\<close>) in ascending numeric
  order, whatever order they were written in, and after them the other keys in the order
  they were written in.
\<close>

type_synonym status_mapping = "(nat \<times> string list) list"

definition errorMapping :: "status_mapping option \<Rightarrow> status_mapping" where
  "errorMapping userMapping =
     (let user = (case userMapping of None \<Rightarrow> [] | Some m \<Rightarrow> m);
          user400 = (case map_of user 400 of None \<Rightarrow> [] | Some tys \<Rightarrow> tys)
      in AList.update 413 [''PayloadTooLargeError'']
           (AList.update 408 [''RequestTimeoutError'']
              (AList.update 400 (user400 @ [''SchemaValidationError'']) user)))"

definition is_index :: "nat \<Rightarrow> bool" where
  "is_index k = (k < 4294967295)"

definition Object_entries :: "status_mapping \<Rightarrow> status_mapping" where
  "Object_entries obj =
     sort_key fst (filter (\<lambda>entry. is_index (fst entry)) obj)
     @ filter (\<lambda>entry. \<not> is_index (fst entry)) obj"

fun first_match :: "thrown \<Rightarrow> status_mapping \<Rightarrow> nat" where
  "first_match error [] = 500"
| "first_match error ((code, errorTypes) # rest) =
     (if list_ex (instanceof error) errorTypes then code else first_match error rest)"

definition statusCodeFor :: "status_mapping option \<Rightarrow> thrown \<Rightarrow> nat" where
  "statusCodeFor userMapping error =
     (if instanceof error ''Error''
      then first_match error (Object_entries (errorMapping userMapping))
      else 500)"

section \<open>Requests, configuration and stages\<close>

text \<open>
  Of the event the handler reads \<^verbatim>\<open>httpMethod\<close>, \<^verbatim>\<open>headers\<close> (an object: a header is
  found under the key as written, \<^verbatim>\<open>headers['content-type']\<close> and \<^verbatim>\<open>headers.origin\<close>) and
  \<^verbatim>\<open>body\<close> (\<open>None\<close> is \<^verbatim>\<open>null\<close>).
\<close>

record APIGatewayProxyEvent =
  httpMethod :: string
  headers :: "(string \<times> string) list"
  body :: "string option"

record Context =
  awsRequestId :: string

text \<open>
  What \<^verbatim>\<open>execute\<close> may return: a plain value, a promise (by its settled state) or an
  rxjs \<^verbatim>\<open>Observable\<close> (the values it emits, in order, and how it ends: \<open>None\<close> when it
  completes, the error when it fails). Promises and observables that never settle are met
  by the deadline timer only, a race in real time that this model leaves out: it describes
  the invocations whose stages settle before the deadline.
\<close>

datatype observable = Observable (emitted: "jsval list") (terminal: "thrown option")

datatype promise = Resolved jsval | Rejected thrown

datatype exec_result = Plain jsval | Promise promise | Lazy observable

text \<open>
  \<^verbatim>\<open>IUseCase.execute(query)\<close> and the factory \<^verbatim>\<open>IUseCaseInlineFunc\<close>
  \<^verbatim>\<open>(query, context) => IUseCase\<close>; either may throw.
\<close>

type_synonym executable = "jsval \<Rightarrow> thrown + exec_result"

type_synonym use_case = "jsval \<Rightarrow> APIGatewayProxyEvent \<Rightarrow> thrown + executable"

text \<open>
  \<^verbatim>\<open>reflect(reflector, source)\<close> of \<^verbatim>\<open>@denis_bruns/reflection\<close> is external: a configured
  reflector is the function from the source to the object it extracts (or the error it
  throws).
\<close>

record handler_config =
  handlers :: "use_case list"
  initialBodyReflector :: "(jsval \<Rightarrow> thrown + (string \<times> jsval) list) option"
  initialQueryReflector :: "(APIGatewayProxyEvent \<Rightarrow> thrown + (string \<times> jsval) list) option"
  errorToStatusCodeMapping :: "status_mapping option"
  bodySchema :: "validator option"
  timeoutMs :: "nat option"

text \<open>\<^verbatim>\<open>HandlerBuilderConfig\<close>; its \<^verbatim>\<open>headers\<close> are the security headers.\<close>

record HandlerBuilderConfig =
  maxResponseSize :: "nat option"
  allowedMethods :: "string list option"
  securityHeaders :: "(string \<times> string) list option"
  corsOriginWhitelist :: "string list option"

text \<open>
  The platform: \<^verbatim>\<open>JSON.parse\<close> (which throws on malformed text), the clock read in the
  catch block (\<^verbatim>\<open>new Date().toISOString()\<close>), and the message of
  \<^verbatim>\<open>new PayloadTooLargeError()\<close>.
\<close>

record platform =
  JSON_parse :: "string \<Rightarrow> thrown + jsval"
  now :: string
  payloadTooLargeMessage :: string

record APIGatewayProxyResult =
  statusCode :: nat
  response_headers :: "(string \<times> string) list"
  response_body :: string

definition DEFAULT_MAX_RESPONSE_SIZE :: nat where
  "DEFAULT_MAX_RESPONSE_SIZE = 6 * 1024 * 1024"

definition DEFAULT_TIMEOUT :: nat where
  "DEFAULT_TIMEOUT = 29000"

definition DEFAULT_SECURITY_HEADERS :: "(string \<times> string) list" where
  "DEFAULT_SECURITY_HEADERS =
     [(''Strict-Transport-Security'', ''max-age=31536000; includeSubDomains''),
      (''X-Content-Type-Options'', ''nosniff''),
      (''X-Frame-Options'', ''DENY''),
      (''Content-Security-Policy'', ''default-src 'none'' @ [CHR 0x27]),
      (''Cache-Control'', ''no-store, max-age=0''),
      (''Pragma'', ''no-cache'')]"

section \<open>The handler chain\<close>

text \<open>
  \<^verbatim>\<open>firstValueFrom\<close>: the first value emitted; the source's error if it fails before
  emitting; \<^verbatim>\<open>EmptyError\<close> if it completes without a value.
\<close>

definition firstValueFrom :: "observable \<Rightarrow> promise" where
  "firstValueFrom source =
     (case emitted source of
        v # rest \<Rightarrow> Resolved v
      | [] \<Rightarrow> (case terminal source of None \<Rightarrow> Rejected EmptyError | Some e \<Rightarrow> Rejected e))"

text \<open>
  The \<^verbatim>\<open>map\<close> step returns
  \<^verbatim>\<open>result instanceof Observable ? firstValueFrom(result) : result\<close>: a plain value
  (\<open>Inl\<close>) or a promise (\<open>Inr\<close>).
\<close>

fun first_of_lazy :: "exec_result \<Rightarrow> jsval + promise" where
  "first_of_lazy (Plain v) = Inl v"
| "first_of_lazy (Promise p) = Inr p"
| "first_of_lazy (Lazy source) = Inr (firstValueFrom source)"

text \<open>
  \<^verbatim>\<open>switchMap(async result => result ?? null)\<close>: \<^verbatim>\<open>??\<close> is applied to what the \<^verbatim>\<open>map\<close>
  step returned. A promise is an object, never nullish, so the async function returns it
  and the value it resolves to is passed on as it is.
\<close>

fun settle :: "jsval + promise \<Rightarrow> thrown + jsval" where
  "settle (Inl v) = Inr (or_null v)"
| "settle (Inr (Resolved v)) = Inr v"
| "settle (Inr (Rejected e)) = Inl e"

text \<open>
  One pass of the loop body: the factory is called with the query and the event,
  \<^verbatim>\<open>execute\<close> with the query; an exception in either fails the stream.
\<close>

definition run_stage :: "use_case \<Rightarrow> jsval \<Rightarrow> APIGatewayProxyEvent \<Rightarrow> thrown + jsval" where
  "run_stage createHandler query event =
     (case createHandler query event of
        Inl e \<Rightarrow> Inl e
      | Inr handler \<Rightarrow>
          (case handler query of
             Inl e \<Rightarrow> Inl e
           | Inr result \<Rightarrow> settle (first_of_lazy result)))"

text \<open>
  The piped stream over \<^verbatim>\<open>from([initialQuery])\<close>: the stages in order, each fed the value
  the one before delivered; an error ends the stream. Beside the outcome the model
  returns the queries the factories were called with, in call order.
\<close>

fun run_chain :: "use_case list \<Rightarrow> APIGatewayProxyEvent \<Rightarrow> jsval \<Rightarrow> jsval list \<times> (thrown + jsval)" where
  "run_chain [] event query = ([], Inr query)"
| "run_chain (createHandler # rest) event query =
     (case run_stage createHandler query event of
        Inl e \<Rightarrow> ([query], Inl e)
      | Inr next_query \<Rightarrow>
          (case run_chain rest event next_query of
             (calls, outcome) \<Rightarrow> (query # calls, outcome)))"

text \<open>\<^verbatim>\<open>firstValueFrom(observable).catch(...)\<close>: an \<^verbatim>\<open>EmptyError\<close> becomes \<^verbatim>\<open>null\<close>.\<close>

definition catch_empty :: "thrown + jsval \<Rightarrow> thrown + jsval" where
  "catch_empty outcome =
     (case outcome of
        Inl e \<Rightarrow> if instanceof e ''EmptyError'' then Inr JNull else Inl e
      | Inr v \<Rightarrow> Inr v)"

section \<open>The pipeline\<close>

text \<open>\<^verbatim>\<open>event.body || dflt\<close>\<close>

definition body_or :: "string option \<Rightarrow> string \<Rightarrow> string" where
  "body_or b dflt = (case b of None \<Rightarrow> dflt | Some s \<Rightarrow> if s = [] then dflt else s)"

text \<open>\<^verbatim>\<open>event.headers['content-type']?.includes('application/json')\<close>, as a condition.\<close>

definition declares_json :: "APIGatewayProxyEvent \<Rightarrow> bool" where
  "declares_json event =
     (case map_of (headers event) ''content-type'' of
        None \<Rightarrow> False
      | Some content_type \<Rightarrow> js_includes content_type ''application/json'')"

definition content_type_check :: "APIGatewayProxyEvent \<Rightarrow> thrown option" where
  "content_type_check event =
     (if httpMethod event \<in> set [''POST'', ''PUT''] \<and> \<not> declares_json event
      then Some (Error ''Content-Type must be application/json'')
      else None)"

definition validating :: "handler_config \<Rightarrow> platform \<Rightarrow> APIGatewayProxyEvent \<Rightarrow> thrown option" where
  "validating config pf event =
     (case bodySchema config of
        None \<Rightarrow> None
      | Some compiled \<Rightarrow>
          (case JSON_parse pf (body_or (body event) ''{}'') of
             Inl e \<Rightarrow> Some e
           | Inr bodyData \<Rightarrow>
               (case validate compiled bodyData of Inl e \<Rightarrow> Some e | Inr data \<Rightarrow> None)))"

text \<open>
  Extraction: the reshaped body replaces \<^verbatim>\<open>event.body\<close> when it has a property, and the
  initial query is read from the event as it then is.
\<close>

definition extracting ::
  "handler_config \<Rightarrow> platform \<Rightarrow> APIGatewayProxyEvent \<Rightarrow> thrown + (APIGatewayProxyEvent \<times> jsval)" where
  "extracting config pf event =
     (case (case initialBodyReflector config of
              None \<Rightarrow> Inr []
            | Some reflector \<Rightarrow>
                (case JSON_parse pf (body_or (body event) []) of
                   Inl e \<Rightarrow> Inl e
                 | Inr source \<Rightarrow> reflector source)) of
        Inl e \<Rightarrow> Inl e
      | Inr initialBody \<Rightarrow>
          (let event' = (if length initialBody > 0
                         then event\<lparr>body := JSON_stringify (JObj initialBody)\<rparr>
                         else event)
           in case initialQueryReflector config of
                None \<Rightarrow> Inr (event', JObj [])
              | Some reflector \<Rightarrow>
                  (case reflector event' of
                     Inl e \<Rightarrow> Inl e
                   | Inr initialQuery \<Rightarrow> Inr (event', JObj initialQuery))))"

text \<open>
  The cap on the response body, in bytes: \<^verbatim>\<open>maxResponseSize = DEFAULT_MAX_RESPONSE_SIZE\<close>
  in the destructuring of the builder configuration.
\<close>

definition response_cap :: "HandlerBuilderConfig \<Rightarrow> nat" where
  "response_cap builderConfig =
     (case maxResponseSize builderConfig of None \<Rightarrow> DEFAULT_MAX_RESPONSE_SIZE | Some n \<Rightarrow> n)"

text \<open>
  After the chain: serialise the result and compare its byte length with the cap.
  \<^verbatim>\<open>Buffer.byteLength\<close> throws a \<^verbatim>\<open>TypeError\<close> when \<^verbatim>\<open>JSON.stringify\<close> gave \<^verbatim>\<open>undefined\<close>.
\<close>

definition check_size :: "HandlerBuilderConfig \<Rightarrow> platform \<Rightarrow> thrown + jsval \<Rightarrow> thrown + string" where
  "check_size builderConfig pf outcome =
     (case outcome of
        Inl e \<Rightarrow> Inl e
      | Inr result \<Rightarrow>
          (case JSON_stringify result of
             None \<Rightarrow> Inl byteLength_TypeError
           | Some responseBody \<Rightarrow>
               if length responseBody > response_cap builderConfig
               then Inl (PayloadTooLargeError (payloadTooLargeMessage pf))
               else Inr responseBody))"

text \<open>
  The \<^verbatim>\<open>try\<close> block: the queries the stage factories were called with, and either the
  thrown value the \<^verbatim>\<open>catch\<close> block receives or the success body.
\<close>

definition attempt ::
  "HandlerBuilderConfig \<Rightarrow> handler_config \<Rightarrow> platform \<Rightarrow> APIGatewayProxyEvent \<Rightarrow>
     jsval list \<times> (thrown + string)" where
  "attempt builderConfig config pf event =
     (case content_type_check event of
        Some e \<Rightarrow> ([], Inl e)
      | None \<Rightarrow>
     (case validating config pf event of
        Some e \<Rightarrow> ([], Inl e)
      | None \<Rightarrow>
     (case extracting config pf event of
        Inl e \<Rightarrow> ([], Inl e)
      | Inr (event', initialQuery) \<Rightarrow>
     (case run_chain (handlers config) event' initialQuery of
        (calls, outcome) \<Rightarrow> (calls, check_size builderConfig pf (catch_empty outcome))))))"

text \<open>
  The response headers: the security headers, then the CORS header, then the content
  type, a later key replacing an earlier one in its place.
\<close>

definition assemble_headers :: "HandlerBuilderConfig \<Rightarrow> APIGatewayProxyEvent \<Rightarrow> (string \<times> string) list" where
  "assemble_headers builderConfig event =
     AList.update ''Content-Type'' ''application/json''
       (AList.update ''Access-Control-Allow-Origin''
          (validateOrigin (map_of (headers event) ''origin'') (corsOriginWhitelist builderConfig))
          (case securityHeaders builderConfig of
             None \<Rightarrow> DEFAULT_SECURITY_HEADERS | Some hs \<Rightarrow> hs))"

definition respond_success :: "HandlerBuilderConfig \<Rightarrow> APIGatewayProxyEvent \<Rightarrow> string \<Rightarrow> APIGatewayProxyResult" where
  "respond_success builderConfig event responseBody =
     \<lparr>statusCode = 200,
      response_headers = assemble_headers builderConfig event,
      response_body = responseBody\<rparr>"

text \<open>
  The catch block. Each entry of \<^verbatim>\<open>validationErrors\<close> is built from four properties read
  off an element of \<^verbatim>\<open>error.errors\<close>; the first read throws when the element is \<^verbatim>\<open>null\<close>
  or \<^verbatim>\<open>undefined\<close>.
\<close>

definition validation_entry :: "jsval \<Rightarrow> thrown + jsval" where
  "validation_entry err =
     (case get_prop err ''schemaPath'' of
        Inl e \<Rightarrow> Inl e
      | Inr path \<Rightarrow>
     (case get_prop err ''message'' of
        Inl e \<Rightarrow> Inl e
      | Inr msg \<Rightarrow>
     (case get_prop err ''keyword'' of
        Inl e \<Rightarrow> Inl e
      | Inr kw \<Rightarrow>
     (case get_prop err ''params'' of
        Inl e \<Rightarrow> Inl e
      | Inr ps \<Rightarrow>
          Inr (JObj [(''path'', path), (''message'', msg), (''keyword'', kw),
                     (''params'', ps)])))))"

text \<open>\<^verbatim>\<open>Array.prototype.map\<close> with a callback that may throw: the first throw ends it.\<close>

fun map_throwing :: "('a \<Rightarrow> thrown + 'b) \<Rightarrow> 'a list \<Rightarrow> thrown + 'b list" where
  "map_throwing f [] = Inr []"
| "map_throwing f (x # xs) =
     (case f x of
        Inl e \<Rightarrow> Inl e
      | Inr y \<Rightarrow> (case map_throwing f xs of Inl e \<Rightarrow> Inl e | Inr ys \<Rightarrow> Inr (y # ys)))"

text \<open>
  The error body; \<open>Inl\<close> is what building the \<^verbatim>\<open>validationErrors\<close> list throws, inside
  the catch block.
\<close>

definition errorBody :: "status_mapping option \<Rightarrow> string \<Rightarrow> Context \<Rightarrow> thrown \<Rightarrow> thrown + jsval" where
  "errorBody userMapping timestamp context error =
     (let fields =
        [(''message'', JStr (if instanceof error ''Error'' then message error
                            else ''Unexpected error occurred'')),
         (''code'', JNum (int (statusCodeFor userMapping error))),
         (''requestId'', JStr (awsRequestId context)),
         (''timestamp'', JStr timestamp)]
      in case (if instanceof error ''SchemaValidationError'' then errors error else None) of
           None \<Rightarrow> Inr (JObj fields)
         | Some errs \<Rightarrow>
             (case map_throwing validation_entry errs of
                Inl e \<Rightarrow> Inl e
              | Inr entries \<Rightarrow> Inr (JObj (fields @ [(''validationErrors'', JArr entries)]))))"

text \<open>
  The error response reads of the configuration only \<^verbatim>\<open>errorToStatusCodeMapping\<close>, and of
  the platform only the clock. An exception thrown in the catch block leaves the handler:
  the promise it returned rejects (\<open>Inl\<close>).
\<close>

definition respond_error ::
  "HandlerBuilderConfig \<Rightarrow> status_mapping option \<Rightarrow> string \<Rightarrow> Context \<Rightarrow> APIGatewayProxyEvent \<Rightarrow>
     thrown \<Rightarrow> thrown + APIGatewayProxyResult" where
  "respond_error builderConfig userMapping timestamp context event error =
     (case errorBody userMapping timestamp context error of
        Inl e \<Rightarrow> Inl e
      | Inr body_object \<Rightarrow>
          Inr \<lparr>statusCode = statusCodeFor userMapping error,
               response_headers = assemble_headers builderConfig event,
               response_body = serialize body_object\<rparr>)"

text \<open>
  The handler \<^verbatim>\<open>awsLambdaHandlerBuilder(builderConfig)(config)\<close> applied to an event and a
  context, on the invocations whose chain ends before the deadline (the deadline is added
  below): \<open>Inr\<close> is the response it resolves to, \<open>Inl\<close> the value it rejects with. (The
  event's headers are the same before and after extraction, which only replaces the body.)
\<close>

definition handler ::
  "HandlerBuilderConfig \<Rightarrow> handler_config \<Rightarrow> platform \<Rightarrow> Context \<Rightarrow> APIGatewayProxyEvent \<Rightarrow>
     thrown + APIGatewayProxyResult" where
  "handler builderConfig config pf context event =
     (case snd (attempt builderConfig config pf event) of
        Inr responseBody \<Rightarrow> Inr (respond_success builderConfig event responseBody)
      | Inl error \<Rightarrow>
          respond_error builderConfig (errorToStatusCodeMapping config) (now pf) context event error)"

definition stage_calls ::
  "HandlerBuilderConfig \<Rightarrow> handler_config \<Rightarrow> platform \<Rightarrow> APIGatewayProxyEvent \<Rightarrow> jsval list" where
  "stage_calls builderConfig config pf event = fst (attempt builderConfig config pf event)"

text \<open>
  The response the handler gives once the chain has ended with \<open>outcome\<close> (after the
  \<^verbatim>\<open>EmptyError\<close> catch): the size check, then the success or the error envelope.
\<close>

definition conclude ::
  "HandlerBuilderConfig \<Rightarrow> handler_config \<Rightarrow> platform \<Rightarrow> Context \<Rightarrow> APIGatewayProxyEvent \<Rightarrow>
     thrown + jsval \<Rightarrow> thrown + APIGatewayProxyResult" where
  "conclude builderConfig config pf context event outcome =
     (case check_size builderConfig pf outcome of
        Inr responseBody \<Rightarrow> Inr (respond_success builderConfig event responseBody)
      | Inl error \<Rightarrow>
          respond_error builderConfig (errorToStatusCodeMapping config) (now pf) context event error)"


section \<open>The deadline\<close>

text \<open>
  \<^verbatim>\<open>timeout({first: config.timeoutMs ?? DEFAULT_TIMEOUT, with: ...})\<close> is piped onto the stream
  once, after the loop over the stages, and its timer is armed when \<^verbatim>\<open>firstValueFrom\<close>
  subscribes, which is after the content-type check, validation and extraction have run.
  Time is counted in milliseconds from that subscription.

  The time a stage takes on the event loop is a parameter: \<open>settle_time k\<close>, the
  milliseconds from the call of stage \<open>k\<close> until the promise or observable it returned
  settles. A plain value and an exception are there at once, in the turn of the event loop
  in which the stage was called, so the timer cannot fire before them. The message of
  \<^verbatim>\<open>new RequestTimeoutError()\<close> is a parameter as well.
\<close>

record timing =
  settle_time :: "nat \<Rightarrow> nat"
  requestTimeoutMessage :: string

definition deadline :: "handler_config \<Rightarrow> nat" where
  "deadline config = (case timeoutMs config of None \<Rightarrow> DEFAULT_TIMEOUT | Some ms \<Rightarrow> ms)"

definition stage_wait :: "timing \<Rightarrow> nat \<Rightarrow> use_case \<Rightarrow> jsval \<Rightarrow> APIGatewayProxyEvent \<Rightarrow> nat" where
  "stage_wait tm k createHandler query event =
     (case createHandler query event of
        Inl e \<Rightarrow> 0
      | Inr exe \<Rightarrow>
          (case exe query of
             Inl e \<Rightarrow> 0
           | Inr (Plain v) \<Rightarrow> 0
           | Inr (Promise p) \<Rightarrow> settle_time tm k
           | Inr (Lazy source) \<Rightarrow> settle_time tm k))"

text \<open>
  The stream under the timer. \<open>elapsed\<close> is the time at which stage \<open>k\<close> is called. If its
  result would settle later on the event loop, at or after the limit, the timer (armed
  first) fires before it: the stream fails with \<^verbatim>\<open>RequestTimeoutError\<close> and the source is
  unsubscribed, so no later stage is called. The one timer is never armed again: the
  elapsed time carries over from stage to stage.
\<close>

fun run_chain_timed ::
  "timing \<Rightarrow> nat \<Rightarrow> nat \<Rightarrow> nat \<Rightarrow> use_case list \<Rightarrow> APIGatewayProxyEvent \<Rightarrow> jsval \<Rightarrow>
     jsval list \<times> (thrown + jsval)" where
  "run_chain_timed tm limit k elapsed [] event query = ([], Inr query)"
| "run_chain_timed tm limit k elapsed (createHandler # rest) event query =
     (let wait = stage_wait tm k createHandler query event in
      if 0 < wait \<and> limit \<le> elapsed + wait
      then ([query], Inl (RequestTimeoutError (requestTimeoutMessage tm)))
      else (case run_stage createHandler query event of
              Inl e \<Rightarrow> ([query], Inl e)
            | Inr next_query \<Rightarrow>
                (case run_chain_timed tm limit (Suc k) (elapsed + wait) rest event next_query of
                   (calls, outcome) \<Rightarrow> (query # calls, outcome))))"

text \<open>The time the stages of a chain take together, up to the first that fails.\<close>

fun total_wait :: "timing \<Rightarrow> nat \<Rightarrow> use_case list \<Rightarrow> APIGatewayProxyEvent \<Rightarrow> jsval \<Rightarrow> nat" where
  "total_wait tm k [] event query = 0"
| "total_wait tm k (createHandler # rest) event query =
     stage_wait tm k createHandler query event
     + (case run_stage createHandler query event of
          Inl e \<Rightarrow> 0
        | Inr next_query \<Rightarrow> total_wait tm (Suc k) rest event next_query)"

text \<open>The \<^verbatim>\<open>try\<close> block and the handler, with the timer.\<close>

definition timed_attempt ::
  "timing \<Rightarrow> HandlerBuilderConfig \<Rightarrow> handler_config \<Rightarrow> platform \<Rightarrow> APIGatewayProxyEvent \<Rightarrow>
     jsval list \<times> (thrown + string)" where
  "timed_attempt tm builderConfig config pf event =
     (case content_type_check event of
        Some e \<Rightarrow> ([], Inl e)
      | None \<Rightarrow>
     (case validating config pf event of
        Some e \<Rightarrow> ([], Inl e)
      | None \<Rightarrow>
     (case extracting config pf event of
        Inl e \<Rightarrow> ([], Inl e)
      | Inr (event', initialQuery) \<Rightarrow>
     (case run_chain_timed tm (deadline config) 0 0 (handlers config) event' initialQuery of
        (calls, outcome) \<Rightarrow> (calls, check_size builderConfig pf (catch_empty outcome))))))"

definition timed_handler ::
  "timing \<Rightarrow> HandlerBuilderConfig \<Rightarrow> handler_config \<Rightarrow> platform \<Rightarrow> Context \<Rightarrow>
     APIGatewayProxyEvent \<Rightarrow> thrown + APIGatewayProxyResult" where
  "timed_handler tm builderConfig config pf context event =
     (case snd (timed_attempt tm builderConfig config pf event) of
        Inr responseBody \<Rightarrow> Inr (respond_success builderConfig event responseBody)
      | Inl error \<Rightarrow>
          respond_error builderConfig (errorToStatusCodeMapping config) (now pf) context event error)"


text \<open>Some user-supplied rule lists the class.\<close>

definition lists_class :: "status_mapping option \<Rightarrow> string \<Rightarrow> bool" where
  "lists_class userMapping errorType =
     (case userMapping of
        None \<Rightarrow> False
      | Some user \<Rightarrow> list_ex (\<lambda>rule. errorType \<in> set (snd rule)) user)"

section \<open>The specification's readings, for comparison\<close>

text \<open>
  The specification's error mapping: the user-supplied rules first, then the built-in
  rules for validation, timeout and payload size, read top to bottom.
\<close>

definition spec_errorMapping :: "status_mapping option \<Rightarrow> status_mapping" where
  "spec_errorMapping userMapping =
     (case userMapping of None \<Rightarrow> [] | Some m \<Rightarrow> m)
     @ [(400, [''SchemaValidationError'']),
        (408, [''RequestTimeoutError'']),
        (413, [''PayloadTooLargeError''])]"

definition spec_statusCodeFor :: "status_mapping option \<Rightarrow> thrown \<Rightarrow> nat" where
  "spec_statusCodeFor userMapping error = first_match error (spec_errorMapping userMapping)"

text \<open>
  The specification's case-insensitive header keys: some header whose name is
  \<^verbatim>\<open>content-type\<close> in any capitalisation declares JSON.
\<close>

definition to_lower :: "char \<Rightarrow> char" where
  "to_lower c =
     (case map_of (zip ''ABCDEFGHIJKLMNOPQRSTUVWXYZ'' ''abcdefghijklmnopqrstuvwxyz'') c of
        None \<Rightarrow> c
      | Some l \<Rightarrow> l)"

definition spec_declares_json :: "APIGatewayProxyEvent \<Rightarrow> bool" where
  "spec_declares_json event =
     list_ex (\<lambda>header. map to_lower (fst header) = ''content-type'' \<and>
                       js_includes (snd header) ''application/json'')
       (headers event)"

text \<open>
  With case-insensitive header keys, the origin a request declares is the value of its
  \<^verbatim>\<open>origin\<close> header in any capitalisation.
\<close>

definition spec_declared_origin :: "APIGatewayProxyEvent \<Rightarrow> string option" where
  "spec_declared_origin event =
     map_of (map (\<lambda>header. (map to_lower (fst header), snd header)) (headers event)) ''origin''"

section \<open>Example inputs\<close>

text \<open>
  A platform whose \<^verbatim>\<open>JSON.parse\<close> is given on the one text the examples parse, a context,
  the default builder configuration, and a configuration with nothing but its stages.
\<close>

definition example_platform :: platform where
  "example_platform =
     \<lparr>JSON_parse = (\<lambda>text. if text = ''{}'' then Inr (JObj [])
                            else Inl \<lparr>classes = [''SyntaxError'', ''Error''],
                                      message = ''Unexpected token'', errors = None\<rparr>),
      now = ''2025-01-01T00:00:00.000Z'',
      payloadTooLargeMessage = ''Payload too large''\<rparr>"

definition example_context :: Context where
  "example_context = \<lparr>awsRequestId = ''req-1''\<rparr>"

definition default_builder :: HandlerBuilderConfig where
  "default_builder =
     \<lparr>maxResponseSize = None, allowedMethods = None, securityHeaders = None,
      corsOriginWhitelist = None\<rparr>"

definition chain_only :: "use_case list \<Rightarrow> handler_config" where
  "chain_only stages =
     \<lparr>handlers = stages, initialBodyReflector = None, initialQueryReflector = None,
      errorToStatusCodeMapping = None, bodySchema = None, timeoutMs = None\<rparr>"

definition get_request :: APIGatewayProxyEvent where
  "get_request = \<lparr>httpMethod = ''GET'', headers = [], body = None\<rparr>"

definition request_from :: "string \<Rightarrow> APIGatewayProxyEvent" where
  "request_from origin = \<lparr>httpMethod = ''GET'', headers = [(''origin'', origin)], body = None\<rparr>"

definition request_with :: "string \<Rightarrow> string \<Rightarrow> APIGatewayProxyEvent" where
  "request_with header_name header_text =
     \<lparr>httpMethod = ''GET'', headers = [(header_name, header_text)], body = None\<rparr>"

definition post_request :: "string \<Rightarrow> string \<Rightarrow> string \<Rightarrow> APIGatewayProxyEvent" where
  "post_request header_name header_text text =
     \<lparr>httpMethod = ''POST'', headers = [(header_name, header_text)], body = Some text\<rparr>"

text \<open>
  Stages: one whose \<^verbatim>\<open>execute\<close> returns a given result, one that returns its query, one
  whose \<^verbatim>\<open>execute\<close> throws.
\<close>

definition returning :: "exec_result \<Rightarrow> use_case" where
  "returning result = (\<lambda>query event. Inr (\<lambda>q. Inr result))"

definition echo :: use_case where
  "echo = (\<lambda>query event. Inr (\<lambda>q. Inr (Plain q)))"




text \<open>
  A compiled schema that requires the property \<^verbatim>\<open>name\<close>, with the error the validator
  reports for a \<^verbatim>\<open>required\<close> rule, and the same violation one level down, at \<^verbatim>\<open>/user\<close>.
\<close>

definition missing_name_at :: "string \<Rightarrow> ErrorObject" where
  "missing_name_at path =
     \<lparr>instancePath = path,
      keyword = ''required'',
      params = \<lparr>missingProperty = Some ''name'', additionalProperty = None,
                format = None, wrapped_keywords = None\<rparr>,
      schema = JArr [JStr ''name''],
      ajv_message = Some (''must have required property '' @ [CHR 0x27] @ ''name'' @ [CHR 0x27])\<rparr>"

definition requires_name :: validator where
  "requires_name data =
     (if get_prop data ''name'' = Inr JUndefined then (False, Some [missing_name_at []])
      else (True, None))"

section \<open>Basic facts\<close>

subsection \<open>The chain\<close>


lemma run_chain_first_call:
  "run_chain hs ev q = (cs, r) \<Longrightarrow> cs \<noteq> [] \<Longrightarrow> cs ! 0 = q"
  by (cases hs) (auto split: sum.splits prod.splits)


lemma run_chain_feeds_forward:
  "run_chain hs ev q = (cs, r) \<Longrightarrow> Suc k < length cs \<Longrightarrow>
   run_stage (hs ! k) (cs ! k) ev = Inr (cs ! Suc k)"
proof (induction hs arbitrary: q cs k)
  case Nil
  then show ?case by simp
next
  case (Cons h hs)
  from Cons.prems obtain v cs' where v: "run_stage h q ev = Inr v"
    and cs': "run_chain hs ev v = (cs', r)" "cs = q # cs'"
    by (auto split: sum.splits prod.splits)
  show ?case
  proof (cases k)
    case 0
    from cs' Cons.prems 0 have "cs' \<noteq> []" by auto
    with cs'(1) have "cs' ! 0 = v" by (rule run_chain_first_call)
    with 0 v cs'(2) show ?thesis by simp
  next
    case (Suc j)
    with Cons.prems cs'(2) have "Suc j < length cs'" by simp
    from Cons.IH[OF cs'(1) this] Suc cs'(2) show ?thesis by simp
  qed
qed

text \<open>A stage fails exactly when its factory throws, its \<^verbatim>\<open>execute\<close> throws, or the promise
  of its result (its own, or that of the first value of its observable) rejects.\<close>

lemma run_stage_fails_iff:
  "run_stage h q ev = Inl e \<longleftrightarrow>
     h q ev = Inl e \<or>
     (\<exists>x. h q ev = Inr x \<and>
        (x q = Inl e \<or> (\<exists>r. x q = Inr r \<and> first_of_lazy r = Inr (Rejected e))))"
proof -
  have settle_fails: "settle s = Inl e \<longleftrightarrow> s = Inr (Rejected e)" for s
    by (cases s rule: settle.cases) (auto simp: or_null_def)
  show ?thesis
    by (auto simp: run_stage_def settle_fails split: sum.splits)
qed

lemma handler_after_chain:
  assumes "content_type_check event = None"
    and "validating config pf event = None"
    and "extracting config pf event = Inr (event', initialQuery)"
    and "run_chain (handlers config) event' initialQuery = (calls, outcome)"
  shows "handler bc config pf ctx event = conclude bc config pf ctx event (catch_empty outcome)"
  using assms by (simp add: handler_def attempt_def conclude_def)




subsection \<open>The catch block\<close>



lemma respond_error_status:
  "respond_error bc um ts ctx event e = Inr r \<Longrightarrow>
   statusCode r = statusCodeFor um e \<and> response_headers r = assemble_headers bc event"
  by (auto simp: respond_error_def split: sum.splits)


text \<open>A thrown value without an \<^verbatim>\<open>errors\<close> property is always answered.\<close>

lemma respond_error_plain:
  "errors e = None \<Longrightarrow>
   respond_error bc um ts ctx event e =
     Inr \<lparr>statusCode = statusCodeFor um e,
          response_headers = assemble_headers bc event,
          response_body = serialize (JObj
            [(''message'', JStr (if instanceof e ''Error'' then message e
                                else ''Unexpected error occurred'')),
             (''code'', JNum (int (statusCodeFor um e))),
             (''requestId'', JStr (awsRequestId ctx)),
             (''timestamp'', JStr ts)])\<rparr>"
  by (simp add: respond_error_def errorBody_def)

subsection \<open>The classifier\<close>

lemma set_update_subset: "set (AList.update k v al) \<subseteq> insert (k, v) (set al)"
  by (induction al) auto

lemma update_memD: "x \<in> set (AList.update k v al) \<Longrightarrow> x = (k, v) \<or> x \<in> set al"
  using set_update_subset[of k v al] by auto

lemma update_mem: "(k, v) \<in> set (AList.update k v al)"
  by (induction al) auto


lemma set_Object_entries: "set (Object_entries m) = set m"
  by (auto simp: Object_entries_def)

lemma first_match_none:
  "\<forall>rule \<in> set m. \<not> list_ex (instanceof e) (snd rule) \<Longrightarrow> first_match e m = 500"
  by (induction m) auto

lemma first_match_same:
  "(c, tys) \<in> set m \<Longrightarrow> list_ex (instanceof e) tys \<Longrightarrow>
   \<forall>rule \<in> set m. list_ex (instanceof e) (snd rule) \<longrightarrow> fst rule = c \<Longrightarrow>
   first_match e m = c"
  by (induction m) auto

lemma errorMapping_match:
  assumes "(c, tys) \<in> set (errorMapping um)" and "list_ex (instanceof e) tys"
  shows "(c = 413 \<and> instanceof e ''PayloadTooLargeError'')
       \<or> (c = 408 \<and> instanceof e ''RequestTimeoutError'')
       \<or> (c = 400 \<and> instanceof e ''SchemaValidationError'')
       \<or> (\<exists>cls. instanceof e cls \<and> lists_class um cls)"
proof -
  define user where "user = (case um of None \<Rightarrow> [] | Some m \<Rightarrow> m)"
  define user400 where "user400 = (case map_of user 400 of None \<Rightarrow> [] | Some tys \<Rightarrow> tys)"
  have listed: "lists_class um cls" if "(c', tys') \<in> set user" "cls \<in> set tys'" for c' tys' cls
    using that by (cases um) (force simp: user_def lists_class_def list_ex_iff)+
  from assms(1) have "(c, tys) \<in> set (AList.update 413 [''PayloadTooLargeError'']
      (AList.update 408 [''RequestTimeoutError'']
        (AList.update 400 (user400 @ [''SchemaValidationError'']) user)))"
    unfolding errorMapping_def Let_def user_def[symmetric] user400_def[symmetric] .
  then consider "(c, tys) = (413, [''PayloadTooLargeError''])"
    | "(c, tys) = (408, [''RequestTimeoutError''])"
    | "(c, tys) = (400, user400 @ [''SchemaValidationError''])"
    | "(c, tys) \<in> set user" by (blast dest: update_memD)
  then show ?thesis
  proof cases
    case 1
    with assms(2) show ?thesis by simp
  next
    case 2
    with assms(2) show ?thesis by simp
  next
    case 3
    with assms(2) have "instanceof e ''SchemaValidationError'' \<or> (\<exists>t \<in> set user400. instanceof e t)"
      by (auto simp: list_ex_iff)
    then show ?thesis
    proof
      assume "instanceof e ''SchemaValidationError''"
      with 3 show ?thesis by simp
    next
      assume "\<exists>t \<in> set user400. instanceof e t"
      then obtain t where t: "t \<in> set user400" "instanceof e t" by blast
      then have "(400, user400) \<in> set user"
        by (auto simp: user400_def split: option.splits dest: map_of_SomeD)
      from listed[OF this t(1)] t(2) show ?thesis by blast
    qed
  next
    case 4
    from assms(2) obtain t where t: "t \<in> set tys" "instanceof e t"
      by (auto simp: list_ex_iff)
    from listed[OF 4 t(1)] t(2) show ?thesis by blast
  qed
qed

lemma statusCodeFor_plain_Error:
  assumes "\<not> lists_class um ''Error''"
  shows "statusCodeFor um (Error msg) = 500"
proof -
  have "\<not> list_ex (instanceof (Error msg)) (snd rule)"
    if "rule \<in> set (Object_entries (errorMapping um))" for rule
  proof
    assume m: "list_ex (instanceof (Error msg)) (snd rule)"
    from that have "(fst rule, snd rule) \<in> set (errorMapping um)"
      by (simp add: set_Object_entries)
    from errorMapping_match[OF this m] assms show False
      by (auto simp: instanceof_def Error_def)
  qed
  then show ?thesis
    by (simp add: statusCodeFor_def first_match_none)
qed

lemma statusCodeFor_PayloadTooLargeError:
  assumes "\<not> lists_class um ''PayloadTooLargeError''" and "\<not> lists_class um ''Error''"
  shows "statusCodeFor um (PayloadTooLargeError msg) = 413"
proof -
  let ?e = "PayloadTooLargeError msg"
  have mem: "(413, [''PayloadTooLargeError'']) \<in> set (Object_entries (errorMapping um))"
    by (simp add: set_Object_entries errorMapping_def Let_def update_mem)
  have hit: "list_ex (instanceof ?e) [''PayloadTooLargeError'']"
    by (simp add: instanceof_def PayloadTooLargeError_def)
  have only: "\<forall>rule \<in> set (Object_entries (errorMapping um)).
      list_ex (instanceof ?e) (snd rule) \<longrightarrow> fst rule = 413"
  proof (intro ballI impI)
    fix rule
    assume "rule \<in> set (Object_entries (errorMapping um))"
      and m: "list_ex (instanceof ?e) (snd rule)"
    then have "(fst rule, snd rule) \<in> set (errorMapping um)"
      by (simp add: set_Object_entries)
    from errorMapping_match[OF this m] assms show "fst rule = 413"
      by (auto simp: instanceof_def PayloadTooLargeError_def)
  qed
  have "instanceof ?e ''Error''"
    by (simp add: instanceof_def PayloadTooLargeError_def)
  with first_match_same[OF mem hit only] show ?thesis
    by (simp add: statusCodeFor_def)
qed


subsection \<open>The deadline\<close>

text \<open>A chain whose stages together settle before the limit runs as without the timer.\<close>

lemma run_chain_timed_in_time:
  "elapsed + total_wait tm k hs ev q < limit \<Longrightarrow>
   run_chain_timed tm limit k elapsed hs ev q = run_chain hs ev q"
proof (induction hs arbitrary: k elapsed q)
  case Nil
  then show ?case by simp
next
  case (Cons h hs)
  show ?case
  proof (cases "run_stage h q ev")
    case (Inl e)
    with Cons.prems show ?thesis by simp
  next
    case (Inr v)
    with Cons.prems have
      "(elapsed + stage_wait tm k h q ev) + total_wait tm (Suc k) hs ev v < limit"
      by simp
    from Cons.IH[OF this] Inr Cons.prems show ?thesis by simp
  qed
qed



text \<open>Before the deadline the handler with the timer is the handler without it.\<close>

lemma timed_handler_in_time:
  assumes "content_type_check event = None"
    and "validating config pf event = None"
    and "extracting config pf event = Inr (event', initialQuery)"
    and "total_wait tm 0 (handlers config) event' initialQuery < deadline config"
  shows "timed_handler tm bc config pf ctx event = handler bc config pf ctx event"
proof -
  from assms(4) have "run_chain_timed tm (deadline config) 0 0 (handlers config) event'
      initialQuery = run_chain (handlers config) event' initialQuery"
    by (simp add: run_chain_timed_in_time)
  with assms(1-3) show ?thesis
    by (simp add: timed_handler_def timed_attempt_def handler_def attempt_def)
qed


section \<open>Claims\<close>

text \<open>
  Claim C1, at an input where it fails. A chain of two stages whose first \<^verbatim>\<open>execute\<close>
  returns a promise that resolves to \<^verbatim>\<open>undefined\<close> (an \<^verbatim>\<open>async\<close> function without a
  return): the second factory is called with \<^verbatim>\<open>undefined\<close>, not \<^verbatim>\<open>null\<close>, because
  \<^verbatim>\<open>result ?? null\<close> is applied to the promise and not to its value. The same result
  returned synchronously is coerced to \<^verbatim>\<open>null\<close>. As the only stage, the asynchronous one
  makes the handler answer 500: \<^verbatim>\<open>JSON.stringify(undefined)\<close> is no string.
\<close>

theorem async_undefined_not_coerced:
  "stage_calls default_builder
     (chain_only [returning (Promise (Resolved JUndefined)), echo])
     example_platform get_request = [JObj [], JUndefined]
   \<and> stage_calls default_builder
     (chain_only [returning (Plain JUndefined), echo])
     example_platform get_request = [JObj [], JNull]
   \<and> (\<exists>r. handler default_builder
          (chain_only [returning (Promise (Resolved JUndefined))])
          example_platform example_context get_request = Inr r
        \<and> statusCode r = 500)"
  by (simp add: default_builder_def chain_only_def example_platform_def get_request_def example_context_def returning_def echo_def handler_def stage_calls_def attempt_def content_type_check_def declares_json_def validating_def extracting_def run_stage_def catch_empty_def check_size_def response_cap_def respond_success_def respond_error_def errorBody_def instanceof_def or_null_def JSON_stringify_def
      byteLength_TypeError_def statusCodeFor_def errorMapping_def Object_entries_def
      is_index_def)




text \<open>
  Claim C3, at inputs where it fails. A user rule \<^verbatim>\<open>{504: [RequestTimeoutError]}\<close> does
  not take priority over the built-in 408 rule: \<^verbatim>\<open>Object.entries\<close> lists the integer keys
  in ascending order, so 408 is met first (the specification's reading, user rules first,
  gives 504); likewise \<^verbatim>\<open>{422: [SchemaValidationError]}\<close> yields 400. A user rule under
  408 is replaced, not merged: an error listed there falls through to 500.
\<close>

theorem user_rule_after_builtin_rule:
  "statusCodeFor (Some [(504, [''RequestTimeoutError''])])
     (RequestTimeoutError ''Request timed out'') = 408
   \<and> spec_statusCodeFor (Some [(504, [''RequestTimeoutError''])])
     (RequestTimeoutError ''Request timed out'') = 504
   \<and> statusCodeFor (Some [(422, [''SchemaValidationError''])])
     (SchemaValidationError ''Validation failed'' []) = 400
   \<and> statusCodeFor (Some [(408, [''ConflictError''])])
     \<lparr>classes = [''ConflictError'', ''Error''], message = ''busy'', errors = None\<rparr> = 500
   \<and> spec_statusCodeFor (Some [(408, [''ConflictError''])])
     \<lparr>classes = [''ConflictError'', ''Error''], message = ''busy'', errors = None\<rparr> = 408"
  by (simp add: statusCodeFor_def spec_statusCodeFor_def errorMapping_def
      spec_errorMapping_def Object_entries_def is_index_def RequestTimeoutError_def
      SchemaValidationError_def instanceof_def)

text \<open>
  Claim C4, as stated, fails under a user rule that maps \<^verbatim>\<open>PayloadTooLargeError\<close> to a
  status below 413: a body of 12 bytes against a cap of 10 is answered with that status,
  here 400.
\<close>

theorem oversized_body_custom_status_counterexample:
  "JSON_stringify (JStr ''0123456789'') = Some (CHR 0x22 # ''0123456789'' @ [CHR 0x22])
   \<and> (\<exists>r. handler (default_builder\<lparr>maxResponseSize := Some 10\<rparr>)
          ((chain_only [returning (Plain (JStr ''0123456789''))])
             \<lparr>errorToStatusCodeMapping := Some [(400, [''PayloadTooLargeError''])]\<rparr>)
          example_platform example_context get_request = Inr r
        \<and> statusCode r = 400)"
  by (simp add: default_builder_def chain_only_def example_platform_def get_request_def example_context_def returning_def handler_def stage_calls_def attempt_def content_type_check_def declares_json_def validating_def extracting_def run_stage_def catch_empty_def check_size_def response_cap_def respond_success_def respond_error_def errorBody_def instanceof_def or_null_def JSON_stringify_def quote_def
      escape_char_def PayloadTooLargeError_def statusCodeFor_def errorMapping_def
      Object_entries_def is_index_def)

text \<open>
  Claim C4, amended. For a chain that succeeds with a result whose JSON text is
  \<open>responseBody\<close>: if the text is longer than the cap (\<^verbatim>\<open>maxResponseSize\<close>, by default
  6 MiB) the handler answers with the error response for \<^verbatim>\<open>PayloadTooLargeError\<close>, never
  with the body or a part of it, and the status, the classifier's, is 413 whenever no user
  rule lists \<^verbatim>\<open>PayloadTooLargeError\<close> or \<^verbatim>\<open>Error\<close>; otherwise it answers 200 with that
  body.
\<close>

theorem oversized_body_becomes_error:
  assumes "content_type_check event = None"
    and "validating config pf event = None"
    and "extracting config pf event = Inr (event', initialQuery)"
    and "run_chain (handlers config) event' initialQuery = (calls, Inr result)"
    and "JSON_stringify result = Some responseBody"
  shows "handler bc config pf ctx event =
           (if length responseBody > response_cap bc
            then respond_error bc (errorToStatusCodeMapping config) (now pf) ctx event
                   (PayloadTooLargeError (payloadTooLargeMessage pf))
            else Inr \<lparr>statusCode = 200, response_headers = assemble_headers bc event,
                      response_body = responseBody\<rparr>)
       \<and> (\<exists>r. respond_error bc (errorToStatusCodeMapping config) (now pf) ctx event
                 (PayloadTooLargeError (payloadTooLargeMessage pf)) = Inr r
              \<and> statusCode r = statusCodeFor (errorToStatusCodeMapping config)
                                 (PayloadTooLargeError (payloadTooLargeMessage pf)))
       \<and> (length responseBody > response_cap bc
            \<and> \<not> lists_class (errorToStatusCodeMapping config) ''PayloadTooLargeError''
            \<and> \<not> lists_class (errorToStatusCodeMapping config) ''Error''
          \<longrightarrow> (\<exists>r. handler bc config pf ctx event = Inr r \<and> statusCode r = 413))
       \<and> response_cap (bc\<lparr>maxResponseSize := None\<rparr>) = 6 * 1024 * 1024"
proof -
  let ?um = "errorToStatusCodeMapping config"
  let ?e = "PayloadTooLargeError (payloadTooLargeMessage pf)"
  have "handler bc config pf ctx event =
      conclude bc config pf ctx event (catch_empty (Inr result))"
    using assms(1-4) by (rule handler_after_chain)
  with assms(5) have resp: "handler bc config pf ctx event =
      (if length responseBody > response_cap bc
       then respond_error bc ?um (now pf) ctx event ?e
       else Inr \<lparr>statusCode = 200, response_headers = assemble_headers bc event,
                 response_body = responseBody\<rparr>)"
    by (simp add: catch_empty_def conclude_def check_size_def respond_success_def)
  have "errors ?e = None"
    by (simp add: PayloadTooLargeError_def)
  then have answered: "\<exists>r. respond_error bc ?um (now pf) ctx event ?e = Inr r
      \<and> statusCode r = statusCodeFor ?um ?e"
    by (simp add: respond_error_plain)
  have status: "\<exists>r. handler bc config pf ctx event = Inr r \<and> statusCode r = 413"
    if "length responseBody > response_cap bc"
      and "\<not> lists_class ?um ''PayloadTooLargeError''"
      and "\<not> lists_class ?um ''Error''"
    using that resp answered by (simp add: statusCodeFor_PayloadTooLargeError)
  have "response_cap (bc\<lparr>maxResponseSize := None\<rparr>) = 6 * 1024 * 1024"
    by (simp add: response_cap_def DEFAULT_MAX_RESPONSE_SIZE_def)
  with resp answered status show ?thesis by blast
qed

text \<open>
  Witness for C4: the scenario of the specification, a cap of 10 bytes and a payload of 12,
  with no user rules: status 413.
\<close>

theorem oversized_body_becomes_error_witness:
  "\<exists>r. handler (default_builder\<lparr>maxResponseSize := Some 10\<rparr>)
     (chain_only [returning (Plain (JStr ''0123456789''))])
     example_platform example_context get_request = Inr r
   \<and> statusCode r = 413"
  using oversized_body_becomes_error [of get_request
      "chain_only [returning (Plain (JStr ''0123456789''))]" example_platform
      get_request "JObj []" "[JObj []]" "JStr ''0123456789''"
      "CHR 0x22 # ''0123456789'' @ [CHR 0x22]"
      "default_builder\<lparr>maxResponseSize := Some 10\<rparr>" example_context,
      THEN conjunct2, THEN conjunct2, THEN conjunct1]
  by (simp add: default_builder_def chain_only_def example_platform_def get_request_def example_context_def returning_def content_type_check_def validating_def extracting_def
      run_stage_def or_null_def JSON_stringify_def quote_def escape_char_def
      response_cap_def lists_class_def)




text \<open>
  Claim C6, as stated, fails for a request that declares its origin under the header name
  \<^verbatim>\<open>Origin\<close>: the code reads the key \<^verbatim>\<open>origin\<close> as written, finds nothing, and answers
  \<^verbatim>\<open>*\<close> although a whitelist is configured and does not contain the declared origin. It
  also fails for an origin header with an empty value, which the code takes for no origin:
  the answer is \<^verbatim>\<open>*\<close>, not \<^verbatim>\<open>null\<close>.
\<close>

theorem capitalised_origin_counterexample:
  "spec_declared_origin (request_with ''Origin'' ''https://evil.com'') = Some ''https://evil.com''
   \<and> (\<exists>r. handler (default_builder\<lparr>corsOriginWhitelist := Some [''https://ok.com'']\<rparr>)
          (chain_only [echo]) example_platform example_context
          (request_with ''Origin'' ''https://evil.com'') = Inr r
        \<and> map_of (response_headers r) ''Access-Control-Allow-Origin'' = Some ''*'')
   \<and> validateOrigin (Some []) (Some [''https://ok.com'']) = ''*''"
  by (simp add: default_builder_def chain_only_def example_platform_def example_context_def request_with_def echo_def handler_def stage_calls_def attempt_def content_type_check_def declares_json_def validating_def extracting_def run_stage_def catch_empty_def check_size_def response_cap_def respond_success_def respond_error_def errorBody_def instanceof_def spec_declared_origin_def to_lower_def
      or_null_def JSON_stringify_def DEFAULT_MAX_RESPONSE_SIZE_def assemble_headers_def
      DEFAULT_SECURITY_HEADERS_def validateOrigin_def)

text \<open>
  Claim C6, amended. On every response the handler gives, success or error (with or
  without the timer), the header \<^verbatim>\<open>Access-Control-Allow-Origin\<close> is the origin policy's
  answer to the value the request holds under the header key \<^verbatim>\<open>origin\<close> (lower case, as
  written) and the configured whitelist. That answer is \<^verbatim>\<open>*\<close> when no whitelist is
  configured; the value itself when a whitelist is configured and contains the value, which
  is not empty; the text \<^verbatim>\<open>null\<close> when a whitelist is configured and does not contain the
  value, which is not empty; and \<^verbatim>\<open>*\<close> when a whitelist is configured and the request has no
  such header or its value is empty.
\<close>

theorem cors_header_from_origin_key:
  "(\<forall>r. handler bc config pf ctx event = Inr r
        \<longrightarrow> map_of (response_headers r) ''Access-Control-Allow-Origin''
            = Some (validateOrigin (map_of (headers event) ''origin'') (corsOriginWhitelist bc)))
   \<and> (\<forall>r. timed_handler tm bc config pf ctx event = Inr r
        \<longrightarrow> map_of (response_headers r) ''Access-Control-Allow-Origin''
            = Some (validateOrigin (map_of (headers event) ''origin'') (corsOriginWhitelist bc)))
   \<and> map_of (response_headers (respond_success bc event responseBody))
       ''Access-Control-Allow-Origin''
     = Some (validateOrigin (map_of (headers event) ''origin'') (corsOriginWhitelist bc))
   \<and> (\<forall>r. respond_error bc userMapping timestamp ctx event error = Inr r
        \<longrightarrow> map_of (response_headers r) ''Access-Control-Allow-Origin''
            = Some (validateOrigin (map_of (headers event) ''origin'') (corsOriginWhitelist bc)))
   \<and> validateOrigin requestOrigin None = ''*''
   \<and> (listed \<noteq> [] \<and> listed \<in> set whitelist
        \<longrightarrow> validateOrigin (Some listed) (Some whitelist) = listed)
   \<and> (unlisted \<noteq> [] \<and> unlisted \<notin> set whitelist
        \<longrightarrow> validateOrigin (Some unlisted) (Some whitelist) = ''null'')
   \<and> validateOrigin None (Some whitelist) = ''*''
   \<and> validateOrigin (Some []) (Some whitelist) = ''*''"
proof -
  let ?policy = "Some (validateOrigin (map_of (headers event) ''origin'')
      (corsOriginWhitelist bc))"
  have header: "map_of (assemble_headers bc event) ''Access-Control-Allow-Origin'' = ?policy"
    by (simp add: assemble_headers_def update_conv')
  have error_headers: "map_of (response_headers r) ''Access-Control-Allow-Origin'' = ?policy"
    if "respond_error bc um ts ctx event e = Inr r" for um ts e r
    using respond_error_status[OF that] header by simp
  have success_headers: "map_of (response_headers (respond_success bc event content))
      ''Access-Control-Allow-Origin'' = ?policy" for content
    using header by (simp add: respond_success_def)
  have untimed: "map_of (response_headers r) ''Access-Control-Allow-Origin'' = ?policy"
    if "handler bc config pf ctx event = Inr r" for r
    using that error_headers success_headers
    by (auto simp: handler_def split: sum.splits)
  have timed: "map_of (response_headers r) ''Access-Control-Allow-Origin'' = ?policy"
    if "timed_handler tm bc config pf ctx event = Inr r" for r
    using that error_headers success_headers
    by (auto simp: timed_handler_def split: sum.splits)
  have table: "validateOrigin requestOrigin None = ''*''
      \<and> (listed \<noteq> [] \<and> listed \<in> set whitelist
           \<longrightarrow> validateOrigin (Some listed) (Some whitelist) = listed)
      \<and> (unlisted \<noteq> [] \<and> unlisted \<notin> set whitelist
           \<longrightarrow> validateOrigin (Some unlisted) (Some whitelist) = ''null'')
      \<and> validateOrigin None (Some whitelist) = ''*''
      \<and> validateOrigin (Some []) (Some whitelist) = ''*''"
    by (simp add: validateOrigin_def)
  from untimed timed success_headers error_headers table show ?thesis by blast
qed

text \<open>
  Witness for C6: the whitelist \<^verbatim>\<open>["https://ok.com"]\<close> with the origins
  \<^verbatim>\<open>https://ok.com\<close> and \<^verbatim>\<open>https://evil.com\<close> under the key \<^verbatim>\<open>origin\<close>, the latter also
  through the handler, on a request that succeeds and on a POST that is refused for its
  missing content type.
\<close>

theorem cors_header_from_origin_key_witness:
  "(\<exists>r. handler (default_builder\<lparr>corsOriginWhitelist := Some [''https://ok.com'']\<rparr>)
         (chain_only [echo]) example_platform example_context
         (request_from ''https://evil.com'') = Inr r
       \<and> statusCode r = 200
       \<and> map_of (response_headers r) ''Access-Control-Allow-Origin'' = Some ''null'')
   \<and> (\<exists>r. handler (default_builder\<lparr>corsOriginWhitelist := Some [''https://ok.com'']\<rparr>)
         (chain_only [echo]) example_platform example_context
         ((request_from ''https://evil.com'')\<lparr>httpMethod := ''POST''\<rparr>) = Inr r
       \<and> statusCode r = 500
       \<and> map_of (response_headers r) ''Access-Control-Allow-Origin'' = Some ''null'')
   \<and> validateOrigin (Some ''https://ok.com'') (Some [''https://ok.com'']) = ''https://ok.com''
   \<and> validateOrigin (Some ''https://evil.com'') (Some [''https://ok.com'']) = ''null''"
proof -
  let ?bc = "default_builder\<lparr>corsOriginWhitelist := Some [''https://ok.com'']\<rparr>"
  let ?get = "request_from ''https://evil.com''"
  let ?post = "(request_from ''https://evil.com'')\<lparr>httpMethod := ''POST''\<rparr>"
  obtain r where r: "handler ?bc (chain_only [echo]) example_platform example_context ?get
      = Inr r" "statusCode r = 200"
    by (simp add: default_builder_def chain_only_def example_platform_def example_context_def request_from_def echo_def handler_def stage_calls_def attempt_def content_type_check_def declares_json_def validating_def extracting_def run_stage_def catch_empty_def check_size_def response_cap_def respond_success_def respond_error_def errorBody_def instanceof_def or_null_def JSON_stringify_def
        DEFAULT_MAX_RESPONSE_SIZE_def)
  obtain r' where r': "handler ?bc (chain_only [echo]) example_platform example_context ?post
      = Inr r'" "statusCode r' = 500"
    by (simp add: default_builder_def chain_only_def example_platform_def example_context_def request_from_def echo_def handler_def stage_calls_def attempt_def content_type_check_def declares_json_def validating_def extracting_def run_stage_def catch_empty_def check_size_def response_cap_def respond_success_def respond_error_def errorBody_def instanceof_def Error_def statusCodeFor_def
        errorMapping_def Object_entries_def is_index_def)
  note policy = cors_header_from_origin_key [of ?bc "chain_only [echo]" example_platform
      example_context _ _ "[]" None "[]" _ None "''https://ok.com''" "[''https://ok.com'']"
      "''https://evil.com''"]
  from policy [of ?get] r(1)
  have "map_of (response_headers r) ''Access-Control-Allow-Origin''
      = Some (validateOrigin (map_of (headers ?get) ''origin'') (corsOriginWhitelist ?bc))"
    by blast
  then have h: "map_of (response_headers r) ''Access-Control-Allow-Origin'' = Some ''null''"
    by (simp add: request_from_def default_builder_def validateOrigin_def)
  from policy [of ?post] r'(1)
  have "map_of (response_headers r') ''Access-Control-Allow-Origin''
      = Some (validateOrigin (map_of (headers ?post) ''origin'') (corsOriginWhitelist ?bc))"
    by blast
  then have h': "map_of (response_headers r') ''Access-Control-Allow-Origin'' = Some ''null''"
    by (simp add: request_from_def default_builder_def validateOrigin_def)
  from policy [of ?get]
  have table: "validateOrigin (Some ''https://ok.com'') (Some [''https://ok.com''])
        = ''https://ok.com''
      \<and> validateOrigin (Some ''https://evil.com'') (Some [''https://ok.com'']) = ''null''"
    by simp
  from r h r' h' table show ?thesis by blast
qed




text \<open>
  Claim C8, at an input where it fails. The findings a \<^verbatim>\<open>SchemaValidationError\<close> carries are
  the \<^verbatim>\<open>{key, message}\<close> pairs of \<^verbatim>\<open>formatErrors\<close>; the catch block reads \<^verbatim>\<open>schemaPath\<close>,
  \<^verbatim>\<open>keyword\<close> and \<^verbatim>\<open>params\<close> off them, which they do not have. Every entry of
  \<^verbatim>\<open>validationErrors\<close> therefore has an undefined path, keyword and params, and its JSON
  text holds the message only. The body \<^verbatim>\<open>{}\<close> against a schema that requires \<^verbatim>\<open>name\<close> shows it.
\<close>

theorem validation_entries_hold_message_only:
  "validation_entry (finding key msg) =
     Inr (JObj [(''path'', JUndefined), (''message'', msg), (''keyword'', JUndefined),
                (''params'', JUndefined)])
   \<and> (\<exists>r. handler default_builder
          ((chain_only [echo])\<lparr>bodySchema := Some requires_name\<rparr>)
          example_platform example_context
          (post_request ''content-type'' ''application/json'' ''{}'') = Inr r
        \<and> statusCode r = 400
        \<and> response_body r
          = ''{\"message\":\"Validation failed\",\"code\":400,\"requestId\":\"req-1\",''
            @ ''\"timestamp\":\"2025-01-01T00:00:00.000Z\",''
            @ ''\"validationErrors\":[{\"message\":\"must have required property ''
            @ [CHR 0x27] @ ''name'' @ [CHR 0x27] @ ''\"}]}'')"
  by (simp add: default_builder_def chain_only_def example_platform_def example_context_def echo_def post_request_def requires_name_def missing_name_at_def handler_def stage_calls_def attempt_def content_type_check_def declares_json_def validating_def extracting_def run_stage_def catch_empty_def check_size_def response_cap_def respond_success_def respond_error_def errorBody_def instanceof_def
      own_prop_def body_or_def validate_def formatErrors_def findings_of_def
      finding_key_def truthy_string_def finding_def validation_entry_def
      SchemaValidationError_def statusCodeFor_def errorMapping_def Object_entries_def
      is_index_def quote_def escape_char_def number_text_def decimal.simps)

text \<open>
  Claim C9, at an input where it fails. For a required property \<^verbatim>\<open>name\<close> missing inside
  \<^verbatim>\<open>/user\<close> the key is \<^verbatim>\<open>user\<close>, the parent path alone: the branch that appends the
  property's name is entered only when the path has no segment. At the root the key is the
  property's name, as claimed.
\<close>

theorem nested_missing_property_key:
  "finding_key (missing_name_at ''/user'') = ''user''
   \<and> finding_key (missing_name_at ''/user'') \<noteq> ''user.name''
   \<and> finding_key (missing_name_at []) = ''name''
   \<and> formatErrors (Some [missing_name_at ''/user'']) =
       [finding ''user''
          (JStr (''must have required property '' @ [CHR 0x27] @ ''name'' @ [CHR 0x27]))]"
  by (simp add: missing_name_at_def finding_key_def truthy_string_def formatErrors_def
      findings_of_def)

text \<open>
  Claim C10, as stated, fails in two places. Header keys are looked up as written: a POST
  that declares \<^verbatim>\<open>Content-Type: application/json\<close> under the capitalised name is rejected.
  And the status of the rejection is the classifier's: under the user rule
  \<^verbatim>\<open>{404: [Error]}\<close> it is 404.
\<close>

theorem content_type_check_counterexample:
  "spec_declares_json (post_request ''Content-Type'' ''application/json'' ''{}'')
   \<and> content_type_check (post_request ''Content-Type'' ''application/json'' ''{}'')
       = Some (Error ''Content-Type must be application/json'')
   \<and> (\<exists>r. handler default_builder (chain_only [echo]) example_platform
          example_context (post_request ''Content-Type'' ''application/json'' ''{}'') = Inr r
        \<and> statusCode r = 500)
   \<and> (\<exists>r. handler default_builder
          ((chain_only [echo])\<lparr>errorToStatusCodeMapping := Some [(404, [''Error''])]\<rparr>)
          example_platform example_context
          (post_request ''content-type'' ''text/plain'' ''{}'') = Inr r
        \<and> statusCode r = 404)"
  by (simp add: default_builder_def chain_only_def example_platform_def example_context_def echo_def post_request_def handler_def stage_calls_def attempt_def content_type_check_def declares_json_def validating_def extracting_def run_stage_def catch_empty_def check_size_def response_cap_def respond_success_def respond_error_def errorBody_def instanceof_def spec_declares_json_def to_lower_def
      Error_def statusCodeFor_def errorMapping_def Object_entries_def is_index_def)

text \<open>
  Claim C10, amended. A POST or PUT request whose headers hold no \<^verbatim>\<open>content-type\<close> entry
  (the key in lower case, as written here) with \<^verbatim>\<open>application/json\<close> in its value is
  rejected at once: no stage is called, and the response is the error response for the
  content-type error, which depends on the configuration through its error mapping only,
  not on the schema, the reflectors or the stages; its status is the classifier's, 500
  whenever no user rule lists \<^verbatim>\<open>Error\<close>. A request with another method, or one with such a
  \<^verbatim>\<open>content-type\<close> entry, passes this check.
\<close>

theorem content_type_check_first:
  assumes "httpMethod rejected = ''POST'' \<or> httpMethod rejected = ''PUT''"
    and "\<not> declares_json rejected"
    and "(httpMethod passing \<noteq> ''POST'' \<and> httpMethod passing \<noteq> ''PUT'')
         \<or> declares_json passing"
  shows "stage_calls bc config pf rejected = []
       \<and> handler bc config pf ctx rejected =
           respond_error bc (errorToStatusCodeMapping config) (now pf) ctx rejected
             (Error ''Content-Type must be application/json'')
       \<and> (\<exists>r. handler bc config pf ctx rejected = Inr r
              \<and> statusCode r = statusCodeFor (errorToStatusCodeMapping config)
                                 (Error ''Content-Type must be application/json''))
       \<and> (\<not> lists_class (errorToStatusCodeMapping config) ''Error''
            \<longrightarrow> (\<exists>r. handler bc config pf ctx rejected = Inr r \<and> statusCode r = 500))
       \<and> content_type_check passing = None"
proof -
  let ?um = "errorToStatusCodeMapping config"
  let ?e = "Error ''Content-Type must be application/json''"
  from assms(1,2) have rejects: "content_type_check rejected = Some ?e"
    by (auto simp: content_type_check_def)
  then have calls: "stage_calls bc config pf rejected = []"
    by (simp add: stage_calls_def attempt_def)
  from rejects have resp: "handler bc config pf ctx rejected =
      respond_error bc ?um (now pf) ctx rejected ?e"
    by (simp add: handler_def attempt_def)
  have "errors ?e = None"
    by (simp add: Error_def)
  with resp have answered: "\<exists>r. handler bc config pf ctx rejected = Inr r
      \<and> statusCode r = statusCodeFor ?um ?e"
    by (simp add: respond_error_plain)
  have status: "\<exists>r. handler bc config pf ctx rejected = Inr r \<and> statusCode r = 500"
    if "\<not> lists_class ?um ''Error''"
    using that answered by (simp add: statusCodeFor_plain_Error)
  from assms(3) have "content_type_check passing = None"
    by (auto simp: content_type_check_def)
  with calls resp answered status show ?thesis by blast
qed

text \<open>
  Witness for C10: a POST declaring \<^verbatim>\<open>text/plain\<close> is answered 500 with no stage called;
  a POST declaring \<^verbatim>\<open>application/json\<close> under the lower-case key passes this check.
\<close>

theorem content_type_check_first_witness:
  "stage_calls default_builder (chain_only [echo]) example_platform
     (post_request ''content-type'' ''text/plain'' ''{}'') = []
   \<and> (\<exists>r. handler default_builder (chain_only [echo]) example_platform
          example_context (post_request ''content-type'' ''text/plain'' ''{}'') = Inr r
        \<and> statusCode r = 500)
   \<and> content_type_check (post_request ''content-type'' ''application/json'' ''{}'') = None"
proof -
  let ?rejected = "post_request ''content-type'' ''text/plain'' ''{}''"
  let ?passing = "post_request ''content-type'' ''application/json'' ''{}''"
  have is_post: "httpMethod ?rejected = ''POST'' \<or> httpMethod ?rejected = ''PUT''"
    by (simp add: post_request_def)
  have not_json: "\<not> declares_json ?rejected"
    by (simp add: post_request_def declares_json_def)
  have is_json: "(httpMethod ?passing \<noteq> ''POST'' \<and> httpMethod ?passing \<noteq> ''PUT'')
      \<or> declares_json ?passing"
    by (simp add: post_request_def declares_json_def)
  have unlisted: "\<not> lists_class (errorToStatusCodeMapping (chain_only [echo])) ''Error''"
    by (simp add: chain_only_def lists_class_def)
  from content_type_check_first [OF is_post not_json is_json, of default_builder
      "chain_only [echo]" example_platform example_context] unlisted
  show ?thesis by blast
qed

end
